theory Spec2Isabelle
  imports Main
begin

section \<open>Values shared by the two SQL request builders\<close>

text \<open>
  The request body is a Go \<^verbatim>\<open>map[string]interface{}\<close>. The dynamic values stored in
  it are strings, ints, bools, whatever an attached filter predicate produced, and a
  slice of such values.
\<close>

datatype jvalue =
    JNull
  | JBool bool
  | JInt int
  | JString string
  | JArray "jvalue list"
  | JObject "(string \<times> jvalue) list"

text \<open>
  A Go \<^verbatim>\<open>error\<close>. \<^verbatim>\<open>errors.New(text)\<close> builds an \<open>errorString\<close>; every other
  error (of a filter predicate, of the HTTP executor, of the JSON decoder) is opaque
  to this package.
\<close>

datatype error = errorString string | foreignError nat

definition errors_New :: "string \<Rightarrow> error" where
  "errors_New text = errorString text"

type_synonym body = "string \<rightharpoonup> jvalue"

text \<open>\<^verbatim>\<open>url.Values\<close> and \<^verbatim>\<open>http.Header\<close> are both \<^verbatim>\<open>map[string][]string\<close>.\<close>

type_synonym Values = "string \<rightharpoonup> string list"
type_synonym Header = "string \<rightharpoonup> string list"

definition Values_Set :: "Values \<Rightarrow> string \<Rightarrow> string \<Rightarrow> Values" where
  "Values_Set v key val = v(key \<mapsto> [val])"

text \<open>\<^verbatim>\<open>fmt.Sprint\<close> of a bool and \<^verbatim>\<open>strings.Join\<close>.\<close>

definition Sprint :: "bool \<Rightarrow> string" where
  "Sprint b = (if b then ''true'' else ''false'')"

fun Join :: "string list \<Rightarrow> string \<Rightarrow> string" where
  "Join [] sep = []"
| "Join [x] sep = x"
| "Join (x # y # ys) sep = x @ sep @ Join (y # ys) sep"

text \<open>
  The \<^verbatim>\<open>Query\<close> interface has the one method \<^verbatim>\<open>Source() (interface{}, error)\<close>.
  A predicate is opaque and its method may have effects, so it is a computation on a
  world \<open>'w\<close> that the builders thread through every call they make: a predicate
  that is not invoked leaves no mark on the world.
\<close>

type_synonym 'w Query = "'w \<Rightarrow> (error + jvalue) \<times> 'w"

text \<open>
  The HTTP executor \<^verbatim>\<open>Client.PerformRequest\<close> and its types are declared outside
  these two files. Only the fields the builders fill in, and the response body they
  read, are modelled; the executor itself is a parameter of \<open>Do\<close>.
\<close>

record PerformRequestOptions =
  Method :: string
  Path :: string
  Params :: Values
  Body :: body
  Headers :: Header

record Response =
  RespBody :: string

type_synonym ('c, 'w) executor =
  "'c \<Rightarrow> PerformRequestOptions \<Rightarrow> 'w \<Rightarrow> (error + Response) \<times> 'w"

section \<open>XPackSqlQueryService\<close>

text \<open>
  The struct without its client pointer, whose one use is the call of the executor.
  A \<^verbatim>\<open>*bool\<close> is an option, nil being \<open>None\<close>. \<^verbatim>\<open>fetchSize\<close> is a Go int that is
  only compared with zero and stored, never computed with, so \<open>int\<close> holds every
  value it can take, the negative ones included.
\<close>

record 'w XPackSqlQueryService =
  pretty :: "bool option"
  human :: "bool option"
  errorTrace :: "bool option"
  filterPath :: "string list"
  headers :: Header
  filterClauses :: "'w Query list"
  fetchSize :: int
  cursor :: string
  sql :: string
  requestTimeout :: string
  pageTimeout :: string
  timeZone :: string
  fieldMultiValueLeniency :: bool

record Column =
  Name :: string
  Type :: string

record XPackSqlQueryResponse =
  Columns :: "Column list"
  Rows :: "jvalue list list"
  Cursor_of :: string

definition NewXPackSqlQueryService :: "'w XPackSqlQueryService" where
  "NewXPackSqlQueryService =
     \<lparr>pretty = None, human = None, errorTrace = None, filterPath = [],
      headers = Map.empty, filterClauses = [], fetchSize = 0, cursor = [],
      sql = [], requestTimeout = [], pageTimeout = [], timeZone = [],
      fieldMultiValueLeniency = False\<rparr>"

text \<open>
  The setters, each returning the updated builder. \<^verbatim>\<open>Header\<close>, which adds one value
  through \<^verbatim>\<open>http.Header.Add\<close>, is left out: nothing below reads a header.
\<close>

definition Pretty :: "bool \<Rightarrow> 'w XPackSqlQueryService \<Rightarrow> 'w XPackSqlQueryService" where
  "Pretty v s = s\<lparr>pretty := Some v\<rparr>"

definition Human :: "bool \<Rightarrow> 'w XPackSqlQueryService \<Rightarrow> 'w XPackSqlQueryService" where
  "Human v s = s\<lparr>human := Some v\<rparr>"

definition ErrorTrace :: "bool \<Rightarrow> 'w XPackSqlQueryService \<Rightarrow> 'w XPackSqlQueryService" where
  "ErrorTrace v s = s\<lparr>errorTrace := Some v\<rparr>"

definition FilterPath :: "string list \<Rightarrow> 'w XPackSqlQueryService \<Rightarrow> 'w XPackSqlQueryService" where
  "FilterPath v s = s\<lparr>filterPath := v\<rparr>"

definition Headers_set :: "Header \<Rightarrow> 'w XPackSqlQueryService \<Rightarrow> 'w XPackSqlQueryService" where
  "Headers_set v s = s\<lparr>headers := v\<rparr>"

definition SQL :: "string \<Rightarrow> 'w XPackSqlQueryService \<Rightarrow> 'w XPackSqlQueryService" where
  "SQL v s = s\<lparr>sql := v\<rparr>"

definition Cursor :: "string \<Rightarrow> 'w XPackSqlQueryService \<Rightarrow> 'w XPackSqlQueryService" where
  "Cursor v s = s\<lparr>cursor := v\<rparr>"

definition Filter :: "'w Query list \<Rightarrow> 'w XPackSqlQueryService \<Rightarrow> 'w XPackSqlQueryService" where
  "Filter filters s = s\<lparr>filterClauses := filterClauses s @ filters\<rparr>"

definition FetchSize :: "int \<Rightarrow> 'w XPackSqlQueryService \<Rightarrow> 'w XPackSqlQueryService" where
  "FetchSize v s = s\<lparr>fetchSize := v\<rparr>"

definition RequestTimeout :: "string \<Rightarrow> 'w XPackSqlQueryService \<Rightarrow> 'w XPackSqlQueryService" where
  "RequestTimeout v s = s\<lparr>requestTimeout := v\<rparr>"

definition PageTimeout :: "string \<Rightarrow> 'w XPackSqlQueryService \<Rightarrow> 'w XPackSqlQueryService" where
  "PageTimeout v s = s\<lparr>pageTimeout := v\<rparr>"

definition TimeZone :: "string \<Rightarrow> 'w XPackSqlQueryService \<Rightarrow> 'w XPackSqlQueryService" where
  "TimeZone v s = s\<lparr>timeZone := v\<rparr>"

definition SetFieldMultiValueLeniency ::
  "bool \<Rightarrow> 'w XPackSqlQueryService \<Rightarrow> 'w XPackSqlQueryService" where
  "SetFieldMultiValueLeniency v s = s\<lparr>fieldMultiValueLeniency := v\<rparr>"

text \<open>
  The loop over two or more filter clauses: each predicate is asked for its source in
  turn, the first error ends the loop, and every source is appended to \<open>clauses\<close>.
\<close>

fun sources :: "'w Query list \<Rightarrow> jvalue list \<Rightarrow> 'w \<Rightarrow> (error + jvalue list) \<times> 'w" where
  "sources [] clauses w = (Inr clauses, w)"
| "sources (subQuery # rest) clauses w =
     (case subQuery w of
        (Inl err, w') \<Rightarrow> (Inl err, w')
      | (Inr src, w') \<Rightarrow> sources rest (clauses @ [src]) w')"

definition Source :: "'w XPackSqlQueryService \<Rightarrow> 'w \<Rightarrow> (error + body) \<times> 'w" where
  "Source s w =
     (let source = Map.empty in
      if length (cursor s) > 0 then (Inr (source(''cursor'' \<mapsto> JString (cursor s))), w)
      else if length (sql s) = 0 \<and> length (cursor s) = 0
      then (Inl (errors_New ''query and cursor must be not both empty''), w)
      else
        let source = source(''query'' \<mapsto> JString (sql s));
            source = (if fetchSize s > 0
                      then source(''fetch_size'' \<mapsto> JInt (fetchSize s)) else source);
            source = (if length (pageTimeout s) > 0
                      then source(''page_timeout'' \<mapsto> JString (pageTimeout s)) else source);
            source = (if length (requestTimeout s) > 0
                      then source(''request_timeout'' \<mapsto> JString (requestTimeout s))
                      else source);
            source = (if length (timeZone s) > 0
                      then source(''time_zone'' \<mapsto> JString (timeZone s)) else source);
            source = (if fieldMultiValueLeniency s
                      then source(''field_multi_value_leniency'' \<mapsto>
                                    JBool (fieldMultiValueLeniency s))
                      else source)
        in if length (filterClauses s) = 1 then
             (case (filterClauses s ! 0) w of
                (Inl err, w') \<Rightarrow> (Inl err, w')
              | (Inr src, w') \<Rightarrow> (Inr (source(''filter'' \<mapsto> src)), w'))
           else if length (filterClauses s) > 1 then
             (case sources (filterClauses s) [] w of
                (Inl err, w') \<Rightarrow> (Inl err, w')
              | (Inr clauses, w') \<Rightarrow> (Inr (source(''filter'' \<mapsto> JArray clauses)), w'))
           else (Inr source, w))"

definition buildURL :: "'w XPackSqlQueryService \<Rightarrow> string \<times> Values \<times> error option" where
  "buildURL s =
     (let path = ''/_sql'';
          params = Map.empty;
          params = (case pretty s of
                      Some v \<Rightarrow> Values_Set params ''pretty'' (Sprint v) | None \<Rightarrow> params);
          params = (case human s of
                      Some v \<Rightarrow> Values_Set params ''human'' (Sprint v) | None \<Rightarrow> params);
          params = (case errorTrace s of
                      Some v \<Rightarrow> Values_Set params ''error_trace'' (Sprint v)
                    | None \<Rightarrow> params);
          params = (if length (filterPath s) > 0
                    then Values_Set params ''filter_path'' (Join (filterPath s) '','')
                    else params);
          params = Values_Set params ''format'' ''json''
      in (path, params, None))"

definition Validate :: "'w XPackSqlQueryService \<Rightarrow> error option" where
  "Validate s = None"

text \<open>
  \<open>Do\<close> returns the Go pair (response pointer, error) and the world after the calls
  it made. \<^verbatim>\<open>json.Unmarshal\<close> is the standard library's decoder, a parameter here.
\<close>

definition Do ::
  "('c, 'w) executor \<Rightarrow> (string \<Rightarrow> error + XPackSqlQueryResponse) \<Rightarrow> 'c \<Rightarrow>
   'w XPackSqlQueryService \<Rightarrow> 'w \<Rightarrow> (XPackSqlQueryResponse option \<times> error option) \<times> 'w" where
  "Do PerformRequest Unmarshal ctx s w =
     (case Validate s of
        Some err \<Rightarrow> ((None, Some err), w)
      | None \<Rightarrow>
        (case buildURL s of
           (path, params, Some err) \<Rightarrow> ((None, Some err), w)
         | (path, params, None) \<Rightarrow>
           (case Source s w of
              (Inl err, w1) \<Rightarrow> ((None, Some err), w1)
            | (Inr body, w1) \<Rightarrow>
              (case PerformRequest ctx
                      \<lparr>Method = ''POST'', Path = path, Params = params, Body = body,
                       Headers = headers s\<rparr> w1 of
                 (Inl err, w2) \<Rightarrow> ((None, Some err), w2)
               | (Inr res, w2) \<Rightarrow>
                 (case Unmarshal (RespBody res) of
                    Inl err \<Rightarrow> ((None, Some err), w2)
                  | Inr ret \<Rightarrow> ((Some ret, None), w2))))))"

section \<open>XPackSqlTranslateService\<close>

text \<open>
  Go tells the two builders' fields and methods apart by the receiver type; here those
  of the translate builder carry the prefix \<open>tr_\<close>. The struct has no cursor field.
\<close>

record 'w XPackSqlTranslateService =
  tr_pretty :: "bool option"
  tr_human :: "bool option"
  tr_errorTrace :: "bool option"
  tr_filterPath :: "string list"
  tr_headers :: Header
  tr_filterClauses :: "'w Query list"
  tr_fetchSize :: int
  tr_sql :: string
  tr_requestTimeout :: string
  tr_pageTimeout :: string
  tr_timeZone :: string
  tr_fieldMultiValueLeniency :: bool

definition NewXPackSqlTranslateService :: "'w XPackSqlTranslateService" where
  "NewXPackSqlTranslateService =
     \<lparr>tr_pretty = None, tr_human = None, tr_errorTrace = None, tr_filterPath = [],
      tr_headers = Map.empty, tr_filterClauses = [], tr_fetchSize = 0,
      tr_sql = [], tr_requestTimeout = [], tr_pageTimeout = [], tr_timeZone = [],
      tr_fieldMultiValueLeniency = False\<rparr>"

definition tr_Pretty ::
  "bool \<Rightarrow> 'w XPackSqlTranslateService \<Rightarrow> 'w XPackSqlTranslateService" where
  "tr_Pretty v s = s\<lparr>tr_pretty := Some v\<rparr>"

definition tr_Human ::
  "bool \<Rightarrow> 'w XPackSqlTranslateService \<Rightarrow> 'w XPackSqlTranslateService" where
  "tr_Human v s = s\<lparr>tr_human := Some v\<rparr>"

definition tr_ErrorTrace ::
  "bool \<Rightarrow> 'w XPackSqlTranslateService \<Rightarrow> 'w XPackSqlTranslateService" where
  "tr_ErrorTrace v s = s\<lparr>tr_errorTrace := Some v\<rparr>"

definition tr_FilterPath ::
  "string list \<Rightarrow> 'w XPackSqlTranslateService \<Rightarrow> 'w XPackSqlTranslateService" where
  "tr_FilterPath v s = s\<lparr>tr_filterPath := v\<rparr>"

definition tr_Headers_set ::
  "Header \<Rightarrow> 'w XPackSqlTranslateService \<Rightarrow> 'w XPackSqlTranslateService" where
  "tr_Headers_set v s = s\<lparr>tr_headers := v\<rparr>"

definition tr_SQL ::
  "string \<Rightarrow> 'w XPackSqlTranslateService \<Rightarrow> 'w XPackSqlTranslateService" where
  "tr_SQL v s = s\<lparr>tr_sql := v\<rparr>"

definition tr_Filter ::
  "'w Query list \<Rightarrow> 'w XPackSqlTranslateService \<Rightarrow> 'w XPackSqlTranslateService" where
  "tr_Filter filters s = s\<lparr>tr_filterClauses := tr_filterClauses s @ filters\<rparr>"

definition tr_FetchSize ::
  "int \<Rightarrow> 'w XPackSqlTranslateService \<Rightarrow> 'w XPackSqlTranslateService" where
  "tr_FetchSize v s = s\<lparr>tr_fetchSize := v\<rparr>"

definition tr_RequestTimeout ::
  "string \<Rightarrow> 'w XPackSqlTranslateService \<Rightarrow> 'w XPackSqlTranslateService" where
  "tr_RequestTimeout v s = s\<lparr>tr_requestTimeout := v\<rparr>"

definition tr_PageTimeout ::
  "string \<Rightarrow> 'w XPackSqlTranslateService \<Rightarrow> 'w XPackSqlTranslateService" where
  "tr_PageTimeout v s = s\<lparr>tr_pageTimeout := v\<rparr>"

definition tr_TimeZone ::
  "string \<Rightarrow> 'w XPackSqlTranslateService \<Rightarrow> 'w XPackSqlTranslateService" where
  "tr_TimeZone v s = s\<lparr>tr_timeZone := v\<rparr>"

definition tr_SetFieldMultiValueLeniency ::
  "bool \<Rightarrow> 'w XPackSqlTranslateService \<Rightarrow> 'w XPackSqlTranslateService" where
  "tr_SetFieldMultiValueLeniency v s = s\<lparr>tr_fieldMultiValueLeniency := v\<rparr>"

definition tr_Source :: "'w XPackSqlTranslateService \<Rightarrow> 'w \<Rightarrow> (error + body) \<times> 'w" where
  "tr_Source s w =
     (let source = Map.empty in
      if length (tr_sql s) = 0
      then (Inl (errors_New ''query must be not empty''), w)
      else
        let source = source(''query'' \<mapsto> JString (tr_sql s));
            source = (if tr_fetchSize s > 0
                      then source(''fetch_size'' \<mapsto> JInt (tr_fetchSize s)) else source);
            source = (if length (tr_pageTimeout s) > 0
                      then source(''page_timeout'' \<mapsto> JString (tr_pageTimeout s))
                      else source);
            source = (if length (tr_requestTimeout s) > 0
                      then source(''request_timeout'' \<mapsto> JString (tr_requestTimeout s))
                      else source);
            source = (if length (tr_timeZone s) > 0
                      then source(''time_zone'' \<mapsto> JString (tr_timeZone s)) else source);
            source = (if tr_fieldMultiValueLeniency s
                      then source(''field_multi_value_leniency'' \<mapsto>
                                    JBool (tr_fieldMultiValueLeniency s))
                      else source)
        in if length (tr_filterClauses s) = 1 then
             (case (tr_filterClauses s ! 0) w of
                (Inl err, w') \<Rightarrow> (Inl err, w')
              | (Inr src, w') \<Rightarrow> (Inr (source(''filter'' \<mapsto> src)), w'))
           else if length (tr_filterClauses s) > 1 then
             (case sources (tr_filterClauses s) [] w of
                (Inl err, w') \<Rightarrow> (Inl err, w')
              | (Inr clauses, w') \<Rightarrow> (Inr (source(''filter'' \<mapsto> JArray clauses)), w'))
           else (Inr source, w))"

definition tr_buildURL ::
  "'w XPackSqlTranslateService \<Rightarrow> string \<times> Values \<times> error option" where
  "tr_buildURL s =
     (let path = ''/_sql/translate'';
          params = Map.empty;
          params = (case tr_pretty s of
                      Some v \<Rightarrow> Values_Set params ''pretty'' (Sprint v) | None \<Rightarrow> params);
          params = (case tr_human s of
                      Some v \<Rightarrow> Values_Set params ''human'' (Sprint v) | None \<Rightarrow> params);
          params = (case tr_errorTrace s of
                      Some v \<Rightarrow> Values_Set params ''error_trace'' (Sprint v)
                    | None \<Rightarrow> params);
          params = (if length (tr_filterPath s) > 0
                    then Values_Set params ''filter_path'' (Join (tr_filterPath s) '','')
                    else params)
      in (path, params, None))"

definition tr_Validate :: "'w XPackSqlTranslateService \<Rightarrow> error option" where
  "tr_Validate s = None"

definition tr_Do ::
  "('c, 'w) executor \<Rightarrow> 'c \<Rightarrow> 'w XPackSqlTranslateService \<Rightarrow> 'w \<Rightarrow>
   (string \<times> error option) \<times> 'w" where
  "tr_Do PerformRequest ctx s w =
     (case tr_Validate s of
        Some err \<Rightarrow> (([], Some err), w)
      | None \<Rightarrow>
        (case tr_buildURL s of
           (path, params, Some err) \<Rightarrow> (([], Some err), w)
         | (path, params, None) \<Rightarrow>
           (case tr_Source s w of
              (Inl err, w1) \<Rightarrow> (([], Some err), w1)
            | (Inr body, w1) \<Rightarrow>
              (case PerformRequest ctx
                      \<lparr>Method = ''POST'', Path = path, Params = params, Body = body,
                       Headers = tr_headers s\<rparr> w1 of
                 (Inl err, w2) \<Rightarrow> (([], Some err), w2)
               | (Inr res, w2) \<Rightarrow> ((RespBody res, None), w2)))))"

section \<open>What the predicates return, in attachment order\<close>

text \<open>
  \<open>representations qs w srcs w'\<close>: invoked one after the other in the order of the
  list, starting in world \<open>w\<close>, every predicate of \<open>qs\<close> returns a representation and
  no error; \<open>srcs\<close> lists the representations in that order and \<open>w'\<close> is the world
  after the last call.
\<close>

inductive representations :: "'w Query list \<Rightarrow> 'w \<Rightarrow> jvalue list \<Rightarrow> 'w \<Rightarrow> bool" where
  rep_Nil: "representations [] w [] w"
| rep_Cons: "q w = (Inr src, w1) \<Longrightarrow> representations qs w1 srcs w' \<Longrightarrow>
             representations (q # qs) w (src # srcs) w'"

text \<open>
  The body as both \<open>Source\<close> methods have built it when they reach the filter
  section, as a function of the fields that were read: the query and the optional
  fields that passed their guards. Lemma \<open>fields_body_eq\<close> below shows that it is
  the map the chain of guarded assignments builds.
\<close>

definition fields_body :: "string \<Rightarrow> int \<Rightarrow> string \<Rightarrow> string \<Rightarrow> string \<Rightarrow> bool \<Rightarrow> body" where
  "fields_body q f p r z l =
     (\<lambda>k. if k = ''query'' then Some (JString q)
          else if k = ''fetch_size'' \<and> f > 0 then Some (JInt f)
          else if k = ''page_timeout'' \<and> p \<noteq> [] then Some (JString p)
          else if k = ''request_timeout'' \<and> r \<noteq> [] then Some (JString r)
          else if k = ''time_zone'' \<and> z \<noteq> [] then Some (JString z)
          else if k = ''field_multi_value_leniency'' \<and> l then Some (JBool True)
          else None)"

section \<open>Test doubles\<close>

text \<open>
  A filter predicate and an HTTP executor that write their own invocation into a log,
  which is the world the builders thread through: what the log holds afterwards is
  exactly what was invoked, in order.
\<close>

definition recording_query :: "string \<Rightarrow> error + jvalue \<Rightarrow> string list Query" where
  "recording_query name r = (\<lambda>log. (r, log @ [name]))"

definition recording_executor :: "error + Response \<Rightarrow> (unit, string list) executor" where
  "recording_executor r = (\<lambda>ctx opts log. (r, log @ [Method opts @ '' '' @ Path opts]))"

section \<open>Facts about the filter loop and the body\<close>

lemma sources_representations:
  "sources qs acc w = (Inr cl, w') \<Longrightarrow>
   \<exists>srcs. cl = acc @ srcs \<and> representations qs w srcs w'"
proof (induction qs arbitrary: acc w)
  case Nil
  then show ?case by (auto intro: rep_Nil)
next
  case (Cons q qs)
  obtain r w1 where qw: "q w = (r, w1)" by (cases "q w")
  with Cons.prems obtain src where r: "r = Inr src"
    by (cases r) auto
  from Cons.prems qw r have "sources qs (acc @ [src]) w1 = (Inr cl, w')" by simp
  from Cons.IH [OF this] obtain srcs
    where "cl = (acc @ [src]) @ srcs" and "representations qs w1 srcs w'" by blast
  with qw r have "cl = acc @ (src # srcs) \<and> representations (q # qs) w (src # srcs) w'"
    by (auto intro: rep_Cons)
  then show ?case by blast
qed

lemma sources_abort:
  "representations pre w srcs w1 \<Longrightarrow> q w1 = (Inl err, w2) \<Longrightarrow>
   sources (pre @ q # post) acc w = (Inl err, w2)"
  by (induction pre w srcs w1 arbitrary: acc rule: representations.induct) simp_all

lemma representations_length:
  "representations qs w srcs w' \<Longrightarrow> length srcs = length qs"
  by (induction rule: representations.induct) simp_all

lemma fields_body_eq:
  "(let source = Map.empty(''query'' \<mapsto> JString q);
        source = (if f > 0 then source(''fetch_size'' \<mapsto> JInt f) else source);
        source = (if length p > 0 then source(''page_timeout'' \<mapsto> JString p) else source);
        source = (if length r > 0 then source(''request_timeout'' \<mapsto> JString r)
                  else source);
        source = (if length z > 0 then source(''time_zone'' \<mapsto> JString z) else source);
        source = (if l then source(''field_multi_value_leniency'' \<mapsto> JBool l)
                  else source)
    in source) = fields_body q f p r z l"
  unfolding Let_def fields_body_def by (rule ext) simp

lemma fields_body_lookup:
  "fields_body q f p r z l ''fetch_size'' = (if f > 0 then Some (JInt f) else None)"
  "fields_body q f p r z l ''page_timeout'' = (if p = [] then None else Some (JString p))"
  "fields_body q f p r z l ''request_timeout'' = (if r = [] then None else Some (JString r))"
  "fields_body q f p r z l ''time_zone'' = (if z = [] then None else Some (JString z))"
  "fields_body q f p r z l ''field_multi_value_leniency'' =
     (if l then Some (JBool True) else None)"
  "fields_body q f p r z l ''filter'' = None"
  "fields_body q f p r z l ''query'' = Some (JString q)"
  by (simp_all add: fields_body_def)

lemma Source_reaches_filter:
  "cursor s = [] \<Longrightarrow> sql s \<noteq> [] \<Longrightarrow>
   Source s w =
     (if length (filterClauses s) = 1 then
        (case (filterClauses s ! 0) w of
           (Inl err, w') \<Rightarrow> (Inl err, w')
         | (Inr src, w') \<Rightarrow>
             (Inr ((fields_body (sql s) (fetchSize s) (pageTimeout s) (requestTimeout s)
                      (timeZone s) (fieldMultiValueLeniency s))(''filter'' \<mapsto> src)), w'))
      else if length (filterClauses s) > 1 then
        (case sources (filterClauses s) [] w of
           (Inl err, w') \<Rightarrow> (Inl err, w')
         | (Inr clauses, w') \<Rightarrow>
             (Inr ((fields_body (sql s) (fetchSize s) (pageTimeout s) (requestTimeout s)
                      (timeZone s) (fieldMultiValueLeniency s))(''filter'' \<mapsto> JArray clauses)),
              w'))
      else (Inr (fields_body (sql s) (fetchSize s) (pageTimeout s) (requestTimeout s)
                   (timeZone s) (fieldMultiValueLeniency s)), w))"
  unfolding Source_def Let_def fields_body_eq [unfolded Let_def] by simp

lemma tr_Source_reaches_filter:
  "tr_sql s \<noteq> [] \<Longrightarrow>
   tr_Source s w =
     (if length (tr_filterClauses s) = 1 then
        (case (tr_filterClauses s ! 0) w of
           (Inl err, w') \<Rightarrow> (Inl err, w')
         | (Inr src, w') \<Rightarrow>
             (Inr ((fields_body (tr_sql s) (tr_fetchSize s) (tr_pageTimeout s)
                      (tr_requestTimeout s) (tr_timeZone s)
                      (tr_fieldMultiValueLeniency s))(''filter'' \<mapsto> src)), w'))
      else if length (tr_filterClauses s) > 1 then
        (case sources (tr_filterClauses s) [] w of
           (Inl err, w') \<Rightarrow> (Inl err, w')
         | (Inr clauses, w') \<Rightarrow>
             (Inr ((fields_body (tr_sql s) (tr_fetchSize s) (tr_pageTimeout s)
                      (tr_requestTimeout s) (tr_timeZone s)
                      (tr_fieldMultiValueLeniency s))(''filter'' \<mapsto> JArray clauses)),
              w'))
      else (Inr (fields_body (tr_sql s) (tr_fetchSize s) (tr_pageTimeout s)
                   (tr_requestTimeout s) (tr_timeZone s)
                   (tr_fieldMultiValueLeniency s)), w))"
  unfolding tr_Source_def Let_def fields_body_eq [unfolded Let_def] by simp

lemma Source_Inr_sql: "cursor s = [] \<Longrightarrow> Source s w = (Inr b, w') \<Longrightarrow> sql s \<noteq> []"
  by (auto simp: Source_def)

lemma tr_Source_Inr_sql: "tr_Source s w = (Inr b, w') \<Longrightarrow> tr_sql s \<noteq> []"
  by (auto simp: tr_Source_def)

lemma Source_body_cases:
  assumes "cursor s = []" and "Source s w = (Inr b, w')"
  shows "\<exists>m. m = fields_body (sql s) (fetchSize s) (pageTimeout s) (requestTimeout s)
                   (timeZone s) (fieldMultiValueLeniency s) \<and>
             (b = m \<or> (\<exists>x. b = m(''filter'' \<mapsto> x)))"
  using assms(2) Source_Inr_sql [OF assms]
  by (auto simp: Source_reaches_filter [OF assms(1)] split: if_splits prod.splits sum.splits)

lemma tr_Source_body_cases:
  assumes "tr_Source s w = (Inr b, w')"
  shows "\<exists>m. m = fields_body (tr_sql s) (tr_fetchSize s) (tr_pageTimeout s)
                   (tr_requestTimeout s) (tr_timeZone s) (tr_fieldMultiValueLeniency s) \<and>
             (b = m \<or> (\<exists>x. b = m(''filter'' \<mapsto> x)))"
  using assms tr_Source_Inr_sql [OF assms]
  by (auto simp: tr_Source_reaches_filter split: if_splits prod.splits sum.splits)

section \<open>Body construction\<close>

text \<open>
  C1: for the query builder, whenever the cursor token is a non-empty string, Source
  returns exactly the one-key body that maps "cursor" to the token and no error,
  whatever the SQL text, fetch size, timeouts, time zone, leniency and filter
  predicates are. No predicate is invoked (the world is returned as it came), so a
  predicate whose own serialization would fail cannot make Source fail.
\<close>

theorem Source_cursor_only:
  "cursor s \<noteq> [] \<Longrightarrow> Source s w = (Inr [''cursor'' \<mapsto> JString (cursor s)], w)"
  by (simp add: Source_def)

theorem Source_cursor_only_witness:
  "cursor (Cursor ''abc123'' (Filter [recording_query ''q'' (Inl (foreignError 7))]
       (FetchSize 5 (SQL ''SELECT 1'' NewXPackSqlQueryService)))) \<noteq> [] \<and>
   Source (Cursor ''abc123'' (Filter [recording_query ''q'' (Inl (foreignError 7))]
       (FetchSize 5 (SQL ''SELECT 1'' NewXPackSqlQueryService)))) []
     = (Inr [''cursor'' \<mapsto> JString ''abc123''], [])"
  using Source_cursor_only [of "Cursor ''abc123'' (Filter [recording_query ''q'' (Inl (foreignError 7))]
       (FetchSize 5 (SQL ''SELECT 1'' NewXPackSqlQueryService)))" "[]"]
  by (simp add: Cursor_def)

text \<open>
  C2, as the code has it: for the query builder, whenever the SQL text and the cursor
  token are both empty, Source returns no body and the error
  "query and cursor must be not both empty", and Do returns that error with a nil
  response without invoking the HTTP executor: whatever the executor is, the world
  comes back unchanged.
\<close>

theorem Source_both_empty:
  "sql s = [] \<Longrightarrow> cursor s = [] \<Longrightarrow>
   Source s w = (Inl (errors_New ''query and cursor must be not both empty''), w) \<and>
   Do PerformRequest Unmarshal ctx s w =
     ((None, Some (errors_New ''query and cursor must be not both empty'')), w)"
  by (simp add: Do_def Source_def Validate_def buildURL_def Let_def)

theorem Source_both_empty_witness:
  "sql (FetchSize 5 NewXPackSqlQueryService :: string list XPackSqlQueryService) = [] \<and>
   cursor (FetchSize 5 NewXPackSqlQueryService :: string list XPackSqlQueryService) = [] \<and>
   Source (FetchSize 5 NewXPackSqlQueryService) ([] :: string list) =
     (Inl (errors_New ''query and cursor must be not both empty''), []) \<and>
   Do (recording_executor (Inr \<lparr>RespBody = ''{}''\<rparr>)) (\<lambda>b. Inl (foreignError 0)) ()
      (FetchSize 5 NewXPackSqlQueryService) [] =
     ((None, Some (errors_New ''query and cursor must be not both empty'')), [])"
  using Source_both_empty [of "FetchSize 5 NewXPackSqlQueryService" "[] :: string list"
      "recording_executor (Inr \<lparr>RespBody = ''{}''\<rparr>)" "\<lambda>b. Inl (foreignError 0)" "()"]
  by (simp add: FetchSize_def NewXPackSqlQueryService_def)

text \<open>
  The message of the error is not the text "query and cursor must not both be empty":
  the freshly constructed builder has both fields empty and fails with another text.
\<close>

theorem Source_both_empty_counterexample:
  "sql (NewXPackSqlQueryService :: unit XPackSqlQueryService) = [] \<and>
   cursor (NewXPackSqlQueryService :: unit XPackSqlQueryService) = [] \<and>
   fst (Source (NewXPackSqlQueryService :: unit XPackSqlQueryService) ())
     \<noteq> Inl (errors_New ''query and cursor must not both be empty'')"
  by (simp add: Source_def NewXPackSqlQueryService_def errors_New_def)

text \<open>
  C3, as the code has it: for the translate builder, whenever the SQL text is empty,
  Source returns no body and the error "query must be not empty"; nothing else is
  consulted and no predicate is invoked. The builder has no cursor field.
\<close>

theorem tr_Source_empty:
  "tr_sql s = [] \<Longrightarrow> tr_Source s w = (Inl (errors_New ''query must be not empty''), w)"
  by (simp add: tr_Source_def)

theorem tr_Source_empty_witness:
  "tr_sql (tr_Filter [recording_query ''q'' (Inr JNull)]
      (tr_FetchSize 5 NewXPackSqlTranslateService)) = [] \<and>
   tr_Source (tr_Filter [recording_query ''q'' (Inr JNull)] (tr_FetchSize 5 NewXPackSqlTranslateService)) ([] :: string list) =
     (Inl (errors_New ''query must be not empty''), [])"
  using tr_Source_empty [of "tr_Filter [recording_query ''q'' (Inr JNull)] (tr_FetchSize 5 NewXPackSqlTranslateService)" "[] :: string list"]
  by (simp add: tr_FetchSize_def tr_Filter_def NewXPackSqlTranslateService_def)

text \<open>
  The message of the error is not the text "query must not be empty".
\<close>

theorem tr_Source_empty_counterexample:
  "tr_sql (NewXPackSqlTranslateService :: unit XPackSqlTranslateService) = [] \<and>
   fst (tr_Source (NewXPackSqlTranslateService :: unit XPackSqlTranslateService) ())
     \<noteq> Inl (errors_New ''query must not be empty'')"
  by (simp add: tr_Source_def NewXPackSqlTranslateService_def errors_New_def)

text \<open>
  C4, as the code has it: for both builders, whenever Source returns a body (and, for
  the query builder, the cursor token is empty), the key fetch_size is present exactly
  when the fetch size is greater than zero, the keys page_timeout, request_timeout and
  time_zone are present exactly when their strings are non-empty, and the key
  field_multi_value_leniency is present exactly when the flag is true; a key that is
  present holds exactly the configured value.
\<close>

theorem Source_optional_fields:
  "(cursor s = [] \<longrightarrow> Source s w = (Inr b, w') \<longrightarrow>
      b ''fetch_size'' = (if fetchSize s > 0 then Some (JInt (fetchSize s)) else None) \<and>
      b ''page_timeout'' =
        (if pageTimeout s = [] then None else Some (JString (pageTimeout s))) \<and>
      b ''request_timeout'' =
        (if requestTimeout s = [] then None else Some (JString (requestTimeout s))) \<and>
      b ''time_zone'' = (if timeZone s = [] then None else Some (JString (timeZone s))) \<and>
      b ''field_multi_value_leniency'' =
        (if fieldMultiValueLeniency s then Some (JBool True) else None)) \<and>
   (tr_Source t v = (Inr c, v') \<longrightarrow>
      c ''fetch_size'' = (if tr_fetchSize t > 0 then Some (JInt (tr_fetchSize t)) else None) \<and>
      c ''page_timeout'' =
        (if tr_pageTimeout t = [] then None else Some (JString (tr_pageTimeout t))) \<and>
      c ''request_timeout'' =
        (if tr_requestTimeout t = [] then None else Some (JString (tr_requestTimeout t))) \<and>
      c ''time_zone'' =
        (if tr_timeZone t = [] then None else Some (JString (tr_timeZone t))) \<and>
      c ''field_multi_value_leniency'' =
        (if tr_fieldMultiValueLeniency t then Some (JBool True) else None))"
proof (intro conjI impI)
  assume a: "cursor s = []" "Source s w = (Inr b, w')"
  note shape = Source_body_cases [OF a]
  show "b ''fetch_size'' = (if fetchSize s > 0 then Some (JInt (fetchSize s)) else None)"
    using shape by (auto simp: fields_body_lookup)
  show "b ''page_timeout'' =
        (if pageTimeout s = [] then None else Some (JString (pageTimeout s)))"
    using shape by (auto simp: fields_body_lookup)
  show "b ''request_timeout'' =
        (if requestTimeout s = [] then None else Some (JString (requestTimeout s)))"
    using shape by (auto simp: fields_body_lookup)
  show "b ''time_zone'' = (if timeZone s = [] then None else Some (JString (timeZone s)))"
    using shape by (auto simp: fields_body_lookup)
  show "b ''field_multi_value_leniency'' =
        (if fieldMultiValueLeniency s then Some (JBool True) else None)"
    using shape by (auto simp: fields_body_lookup)
next
  assume a: "tr_Source t v = (Inr c, v')"
  note shape = tr_Source_body_cases [OF a]
  show "c ''fetch_size'' = (if tr_fetchSize t > 0 then Some (JInt (tr_fetchSize t)) else None)"
    using shape by (auto simp: fields_body_lookup)
  show "c ''page_timeout'' =
        (if tr_pageTimeout t = [] then None else Some (JString (tr_pageTimeout t)))"
    using shape by (auto simp: fields_body_lookup)
  show "c ''request_timeout'' =
        (if tr_requestTimeout t = [] then None else Some (JString (tr_requestTimeout t)))"
    using shape by (auto simp: fields_body_lookup)
  show "c ''time_zone'' =
        (if tr_timeZone t = [] then None else Some (JString (tr_timeZone t)))"
    using shape by (auto simp: fields_body_lookup)
  show "c ''field_multi_value_leniency'' =
        (if tr_fieldMultiValueLeniency t then Some (JBool True) else None)"
    using shape by (auto simp: fields_body_lookup)
qed

theorem Source_optional_fields_witness:
  "cursor (SetFieldMultiValueLeniency True (TimeZone ''UTC'' (FetchSize 5
      (SQL ''SELECT * FROM t'' (NewXPackSqlQueryService :: unit XPackSqlQueryService))))) = [] \<and>
   Source (SetFieldMultiValueLeniency True (TimeZone ''UTC'' (FetchSize 5
      (SQL ''SELECT * FROM t'' (NewXPackSqlQueryService :: unit XPackSqlQueryService))))) ()
     = (Inr [''query'' \<mapsto> JString ''SELECT * FROM t'', ''fetch_size'' \<mapsto> JInt 5,
             ''time_zone'' \<mapsto> JString ''UTC'',
             ''field_multi_value_leniency'' \<mapsto> JBool True], ()) \<and>
   tr_Source (tr_RequestTimeout ''90s'' (tr_PageTimeout ''45s''
      (tr_SQL ''SELECT 1'' (NewXPackSqlTranslateService :: unit XPackSqlTranslateService)))) ()
     = (Inr [''query'' \<mapsto> JString ''SELECT 1'', ''page_timeout'' \<mapsto> JString ''45s'',
             ''request_timeout'' \<mapsto> JString ''90s''], ()) \<and>
   [''query'' \<mapsto> JString ''SELECT * FROM t'', ''fetch_size'' \<mapsto> JInt 5,
    ''time_zone'' \<mapsto> JString ''UTC'',
    ''field_multi_value_leniency'' \<mapsto> JBool True] ''page_timeout'' = None \<and>
   [''query'' \<mapsto> JString ''SELECT 1'', ''page_timeout'' \<mapsto> JString ''45s'',
    ''request_timeout'' \<mapsto> JString ''90s''] ''fetch_size'' = None"
  using Source_optional_fields
    [of "SetFieldMultiValueLeniency True (TimeZone ''UTC'' (FetchSize 5
           (SQL ''SELECT * FROM t'' (NewXPackSqlQueryService :: unit XPackSqlQueryService))))" "()"
        "[''query'' \<mapsto> JString ''SELECT * FROM t'', ''fetch_size'' \<mapsto> JInt 5,
          ''time_zone'' \<mapsto> JString ''UTC'',
          ''field_multi_value_leniency'' \<mapsto> JBool True]" "()"
        "tr_RequestTimeout ''90s'' (tr_PageTimeout ''45s''
           (tr_SQL ''SELECT 1'' (NewXPackSqlTranslateService :: unit XPackSqlTranslateService)))" "()"
        "[''query'' \<mapsto> JString ''SELECT 1'', ''page_timeout'' \<mapsto> JString ''45s'',
          ''request_timeout'' \<mapsto> JString ''90s'']" "()"]
  by (simp add: Source_def tr_Source_def SetFieldMultiValueLeniency_def TimeZone_def
      FetchSize_def SQL_def NewXPackSqlQueryService_def tr_RequestTimeout_def
      tr_PageTimeout_def tr_SQL_def NewXPackSqlTranslateService_def)

text \<open>
  A fetch size that is not zero is not always present: a negative one does not pass the
  guard \<^verbatim>\<open>s.fetchSize > 0\<close>, and with a cursor token set the body holds the token
  only.
\<close>

theorem Source_optional_fields_counterexample:
  "fetchSize (FetchSize (- 1) (SQL ''SELECT 1'' (NewXPackSqlQueryService :: unit XPackSqlQueryService))) \<noteq> 0 \<and>
   Source (FetchSize (- 1) (SQL ''SELECT 1'' (NewXPackSqlQueryService :: unit XPackSqlQueryService))) ()
     = (Inr [''query'' \<mapsto> JString ''SELECT 1''], ()) \<and>
   projr (fst (Source (FetchSize (- 1) (SQL ''SELECT 1'' (NewXPackSqlQueryService :: unit XPackSqlQueryService))) ()))
     ''fetch_size'' = None \<and>
   fetchSize (Cursor ''abc'' (FetchSize 5 (NewXPackSqlQueryService :: unit XPackSqlQueryService))) \<noteq> 0 \<and>
   Source (Cursor ''abc'' (FetchSize 5 (NewXPackSqlQueryService :: unit XPackSqlQueryService))) ()
     = (Inr [''cursor'' \<mapsto> JString ''abc''], ()) \<and>
   projr (fst (Source (Cursor ''abc'' (FetchSize 5 (NewXPackSqlQueryService :: unit XPackSqlQueryService))) ()))
     ''fetch_size'' = None"
  by (simp add: Source_def FetchSize_def SQL_def Cursor_def NewXPackSqlQueryService_def)

text \<open>
  C5, as the code has it: for both builders, whenever Source returns a body (and, for
  the query builder, the cursor token is empty): with no attached predicate the key
  filter is absent; with exactly one, the key holds what that predicate returned,
  itself and not a sequence; with two or more, the key holds the sequence of what the
  predicates returned, in attachment order.
\<close>

theorem Source_filter_arity:
  "(cursor s = [] \<longrightarrow> Source s w = (Inr b, w') \<longrightarrow>
      (filterClauses s = [] \<longrightarrow> b ''filter'' = None \<and> w' = w) \<and>
      (\<forall>q. filterClauses s = [q] \<longrightarrow> (\<exists>src. q w = (Inr src, w') \<and> b ''filter'' = Some src)) \<and>
      (2 \<le> length (filterClauses s) \<longrightarrow>
         (\<exists>srcs. representations (filterClauses s) w srcs w' \<and>
                 b ''filter'' = Some (JArray srcs)))) \<and>
   (tr_Source t v = (Inr c, v') \<longrightarrow>
      (tr_filterClauses t = [] \<longrightarrow> c ''filter'' = None \<and> v' = v) \<and>
      (\<forall>q. tr_filterClauses t = [q] \<longrightarrow> (\<exists>src. q v = (Inr src, v') \<and> c ''filter'' = Some src)) \<and>
      (2 \<le> length (tr_filterClauses t) \<longrightarrow>
         (\<exists>srcs. representations (tr_filterClauses t) v srcs v' \<and>
                 c ''filter'' = Some (JArray srcs))))"
proof (intro conjI impI allI)
  assume a: "cursor s = []" "Source s w = (Inr b, w')"
  note eq = Source_reaches_filter [OF a(1) Source_Inr_sql [OF a]]
  { assume "filterClauses s = []"
    with a(2) show "b ''filter'' = None" by (auto simp: eq fields_body_lookup)
  next
    assume "filterClauses s = []"
    with a(2) show "w' = w" by (auto simp: eq)
  next
    fix q assume "filterClauses s = [q]"
    with a(2) show "\<exists>src. q w = (Inr src, w') \<and> b ''filter'' = Some src"
      by (auto simp: eq split: prod.splits sum.splits)
  next
    assume "2 \<le> length (filterClauses s)"
    with a(2) obtain cl where cl: "sources (filterClauses s) [] w = (Inr cl, w')"
      and b: "b ''filter'' = Some (JArray cl)"
      by (auto simp: eq split: prod.splits sum.splits)
    from sources_representations [OF cl] b
    show "\<exists>srcs. representations (filterClauses s) w srcs w' \<and>
                 b ''filter'' = Some (JArray srcs)" by auto
  }
next
  assume a: "tr_Source t v = (Inr c, v')"
  note eq = tr_Source_reaches_filter [OF tr_Source_Inr_sql [OF a]]
  { assume "tr_filterClauses t = []"
    with a show "c ''filter'' = None" by (auto simp: eq fields_body_lookup)
  next
    assume "tr_filterClauses t = []"
    with a show "v' = v" by (auto simp: eq)
  next
    fix q assume "tr_filterClauses t = [q]"
    with a show "\<exists>src. q v = (Inr src, v') \<and> c ''filter'' = Some src"
      by (auto simp: eq split: prod.splits sum.splits)
  next
    assume "2 \<le> length (tr_filterClauses t)"
    with a obtain cl where cl: "sources (tr_filterClauses t) [] v = (Inr cl, v')"
      and b: "c ''filter'' = Some (JArray cl)"
      by (auto simp: eq split: prod.splits sum.splits)
    from sources_representations [OF cl] b
    show "\<exists>srcs. representations (tr_filterClauses t) v srcs v' \<and>
                 c ''filter'' = Some (JArray srcs)" by auto
  }
qed

theorem Source_filter_arity_witness:
  "Source (Filter [recording_query ''q1'' (Inr (JString ''f1'')),
                   recording_query ''q2'' (Inr (JString ''f2''))]
             (SQL ''SELECT 1'' NewXPackSqlQueryService)) []
     = (Inr [''query'' \<mapsto> JString ''SELECT 1'',
             ''filter'' \<mapsto> JArray [JString ''f1'', JString ''f2'']], [''q1'', ''q2'']) \<and>
   (\<exists>srcs. representations [recording_query ''q1'' (Inr (JString ''f1'')),
                             recording_query ''q2'' (Inr (JString ''f2''))]
              [] srcs [''q1'', ''q2''] \<and>
           JArray [JString ''f1'', JString ''f2''] = JArray srcs) \<and>
   tr_Source (tr_Filter [recording_query ''q1'' (Inr (JString ''f1''))]
             (tr_SQL ''SELECT 1'' NewXPackSqlTranslateService)) []
     = (Inr [''query'' \<mapsto> JString ''SELECT 1'', ''filter'' \<mapsto> JString ''f1''], [''q1'']) \<and>
   Source (SQL ''SELECT 1'' NewXPackSqlQueryService) ([] :: string list)
     = (Inr [''query'' \<mapsto> JString ''SELECT 1''], []) \<and>
   [''query'' \<mapsto> JString ''SELECT 1''] ''filter'' = None"
proof -
  let ?q1 = "recording_query ''q1'' (Inr (JString ''f1''))"
  let ?q2 = "recording_query ''q2'' (Inr (JString ''f2''))"
  let ?s = "Filter [?q1, ?q2] (SQL ''SELECT 1'' NewXPackSqlQueryService)"
  let ?t = "tr_Filter [?q1] (tr_SQL ''SELECT 1'' NewXPackSqlTranslateService)"
  let ?z = "SQL ''SELECT 1'' NewXPackSqlQueryService :: string list XPackSqlQueryService"
  let ?b = "[''query'' \<mapsto> JString ''SELECT 1'',
             ''filter'' \<mapsto> JArray [JString ''f1'', JString ''f2'']]"
  let ?c = "[''query'' \<mapsto> JString ''SELECT 1'', ''filter'' \<mapsto> JString ''f1'']"
  let ?e = "[''query'' \<mapsto> JString ''SELECT 1'']"
  have s1: "cursor ?s = []" and s2: "Source ?s [] = (Inr ?b, [''q1'', ''q2''])"
    and s3: "2 \<le> length (filterClauses ?s)" and s4: "filterClauses ?s = [?q1, ?q2]"
    by (simp_all add: Source_def Filter_def SQL_def NewXPackSqlQueryService_def
        recording_query_def)
  have t1: "tr_Source ?t [] = (Inr ?c, [''q1''])" and t2: "tr_filterClauses ?t = [?q1]"
    by (simp_all add: tr_Source_def tr_Filter_def tr_SQL_def NewXPackSqlTranslateService_def
        recording_query_def)
  have z1: "cursor ?z = []" and z2: "Source ?z [] = (Inr ?e, [])"
    and z3: "filterClauses ?z = []"
    by (simp_all add: Source_def SQL_def NewXPackSqlQueryService_def)
  from Source_filter_arity [of ?s "[]" ?b "[''q1'', ''q2'']" ?t "[]" ?c "[''q1'']"]
    s1 s2 s3 s4 t1
  have "\<exists>srcs. representations [?q1, ?q2] [] srcs [''q1'', ''q2''] \<and>
          ?b ''filter'' = Some (JArray srcs)" by simp
  then have two: "\<exists>srcs. representations [?q1, ?q2] [] srcs [''q1'', ''q2''] \<and>
          JArray [JString ''f1'', JString ''f2''] = JArray srcs" by simp
  from Source_filter_arity [of ?z "[]" ?e "[]" ?t "[]" ?c "[''q1'']"] z1 z2 z3
  have zero: "?e ''filter'' = None" by simp
  from s2 two t1 z2 zero show ?thesis by blast
qed

text \<open>
  With a cursor token set, Source succeeds with one predicate attached and the body has
  no filter key; the predicate is not even invoked.
\<close>

theorem Source_filter_arity_counterexample:
  "filterClauses (Cursor ''abc'' (Filter [recording_query ''q1'' (Inr (JString ''f1''))]
      (SQL ''SELECT 1'' NewXPackSqlQueryService)))
     = [recording_query ''q1'' (Inr (JString ''f1''))] \<and>
   Source (Cursor ''abc'' (Filter [recording_query ''q1'' (Inr (JString ''f1''))]
      (SQL ''SELECT 1'' NewXPackSqlQueryService))) []
     = (Inr [''cursor'' \<mapsto> JString ''abc''], []) \<and>
   projr (fst (Source (Cursor ''abc'' (Filter [recording_query ''q1'' (Inr (JString ''f1''))]
      (SQL ''SELECT 1'' NewXPackSqlQueryService))) [])) ''filter'' = None"
  by (simp add: Source_def Cursor_def Filter_def SQL_def NewXPackSqlQueryService_def)

text \<open>
  C9: for both builders, when body construction reaches the filter section (SQL text
  non-empty and, for the query builder, no cursor token) and the predicates attached
  before some predicate \<open>q\<close> have all returned their representations, an error
  returned by \<open>q\<close> is what Source returns, with no body. The world Source returns is
  the one \<open>q\<close> left behind: no predicate attached after \<open>q\<close> is invoked.
\<close>

theorem Source_filter_error_aborts:
  "(cursor s = [] \<longrightarrow> sql s \<noteq> [] \<longrightarrow> filterClauses s = pre @ q # post \<longrightarrow>
      representations pre w srcs w1 \<longrightarrow> q w1 = (Inl err, w2) \<longrightarrow>
      Source s w = (Inl err, w2)) \<and>
   (tr_sql t \<noteq> [] \<longrightarrow> tr_filterClauses t = pre' @ q' # post' \<longrightarrow>
      representations pre' v srcs' v1 \<longrightarrow> q' v1 = (Inl err', v2) \<longrightarrow>
      tr_Source t v = (Inl err', v2))"
proof (intro conjI impI)
  assume a: "cursor s = []" "sql s \<noteq> []" and fc: "filterClauses s = pre @ q # post"
    and pre: "representations pre w srcs w1" and q: "q w1 = (Inl err, w2)"
  show "Source s w = (Inl err, w2)"
  proof (cases "pre = [] \<and> post = []")
    case True
    with pre have "w1 = w" by (auto elim: representations.cases)
    with True fc q show ?thesis by (simp add: Source_reaches_filter [OF a])
  next
    case False
    with fc have "length (filterClauses s) > 1" by (cases pre; cases post) auto
    moreover have "sources (filterClauses s) [] w = (Inl err, w2)"
      unfolding fc using pre q by (rule sources_abort)
    ultimately show ?thesis by (simp add: Source_reaches_filter [OF a])
  qed
next
  assume a: "tr_sql t \<noteq> []" and fc: "tr_filterClauses t = pre' @ q' # post'"
    and pre: "representations pre' v srcs' v1" and q: "q' v1 = (Inl err', v2)"
  show "tr_Source t v = (Inl err', v2)"
  proof (cases "pre' = [] \<and> post' = []")
    case True
    with pre have "v1 = v" by (auto elim: representations.cases)
    with True fc q show ?thesis by (simp add: tr_Source_reaches_filter [OF a])
  next
    case False
    with fc have "length (tr_filterClauses t) > 1" by (cases pre'; cases post') auto
    moreover have "sources (tr_filterClauses t) [] v = (Inl err', v2)"
      unfolding fc using pre q by (rule sources_abort)
    ultimately show ?thesis by (simp add: tr_Source_reaches_filter [OF a])
  qed
qed

theorem Source_filter_error_aborts_witness:
  "Source (Filter [recording_query ''q1'' (Inr (JString ''f1'')),
                   recording_query ''q2'' (Inl (foreignError 7)),
                   recording_query ''q3'' (Inr (JString ''f3''))]
             (SQL ''SELECT 1'' NewXPackSqlQueryService)) []
     = (Inl (foreignError 7), [''q1'', ''q2'']) \<and>
   tr_Source (tr_Filter [recording_query ''q1'' (Inl (foreignError 8))]
             (tr_SQL ''SELECT 1'' NewXPackSqlTranslateService)) []
     = (Inl (foreignError 8), [''q1''])"
proof -
  let ?q1 = "recording_query ''q1'' (Inr (JString ''f1''))"
  let ?q2 = "recording_query ''q2'' (Inl (foreignError 7))"
  let ?q3 = "recording_query ''q3'' (Inr (JString ''f3''))"
  let ?s = "Filter [?q1, ?q2, ?q3] (SQL ''SELECT 1'' NewXPackSqlQueryService)"
  let ?p1 = "recording_query ''q1'' (Inl (foreignError 8))"
  let ?t = "tr_Filter [?p1] (tr_SQL ''SELECT 1'' NewXPackSqlTranslateService)"
  have s1: "cursor ?s = []" and s2: "sql ?s \<noteq> []"
    and s3: "filterClauses ?s = [?q1] @ ?q2 # [?q3]"
    by (simp_all add: Filter_def SQL_def NewXPackSqlQueryService_def)
  have s4: "representations [?q1] [] [JString ''f1''] [''q1'']"
    by (rule rep_Cons [OF _ rep_Nil]) (simp add: recording_query_def)
  have s5: "?q2 [''q1''] = (Inl (foreignError 7), [''q1'', ''q2''])"
    by (simp add: recording_query_def)
  have t1: "tr_sql ?t \<noteq> []" and t2: "tr_filterClauses ?t = [] @ ?p1 # []"
    by (simp_all add: tr_Filter_def tr_SQL_def NewXPackSqlTranslateService_def)
  have t3: "representations [] ([] :: string list) [] []"
    by (rule rep_Nil)
  have t4: "?p1 [] = (Inl (foreignError 8), [''q1''])"
    by (simp add: recording_query_def)
  from Source_filter_error_aborts
    [of ?s "[?q1]" ?q2 "[?q3]" "[]" "[JString ''f1'']" "[''q1'']" "foreignError 7"
        "[''q1'', ''q2'']" ?t "[]" ?p1 "[]" "[]" "[]" "[]" "foreignError 8" "[''q1'']"]
    s1 s2 s3 s4 s5 t1 t2 t3 t4
  show ?thesis by blast
qed

section \<open>URL construction\<close>

text \<open>
  C6: for every configuration, buildURL returns the fixed path "/_sql" for the query
  builder and "/_sql/translate" for the translate builder, whatever the fields hold,
  and its error result is nil.
\<close>

theorem buildURL_fixed_path:
  "fst (buildURL s) = ''/_sql'' \<and> snd (snd (buildURL s)) = None \<and>
   fst (tr_buildURL t) = ''/_sql/translate'' \<and> snd (snd (tr_buildURL t)) = None"
  by (simp add: buildURL_def tr_buildURL_def Let_def)

text \<open>
  C7: for every configuration of the query builder, the query-string parameters built
  by buildURL hold the parameter format with the single value json. The statement is
  about an arbitrary configuration, so no sequence of setters leads to one where the
  parameter is missing or different.
\<close>

theorem buildURL_format_json:
  "fst (snd (buildURL s)) ''format'' = Some [''json'']"
  by (simp add: buildURL_def Let_def Values_Set_def)

text \<open>
  C10: for every configuration of the translate builder, the query-string parameters
  built by buildURL have no format parameter; their keys are among pretty, human,
  error_trace and filter_path, each present exactly when its field is set (a non-nil
  flag, a non-empty filter path), while the query builder sends format=json.
\<close>

theorem tr_buildURL_params:
  "fst (snd (tr_buildURL t)) ''format'' = None \<and>
   dom (fst (snd (tr_buildURL t))) \<subseteq> {''pretty'', ''human'', ''error_trace'', ''filter_path''} \<and>
   fst (snd (tr_buildURL t)) ''pretty'' = map_option (\<lambda>v. [Sprint v]) (tr_pretty t) \<and>
   fst (snd (tr_buildURL t)) ''human'' = map_option (\<lambda>v. [Sprint v]) (tr_human t) \<and>
   fst (snd (tr_buildURL t)) ''error_trace'' = map_option (\<lambda>v. [Sprint v]) (tr_errorTrace t) \<and>
   fst (snd (tr_buildURL t)) ''filter_path'' =
     (if tr_filterPath t = [] then None else Some [Join (tr_filterPath t) '','']) \<and>
   fst (snd (buildURL s)) ''format'' = Some [''json'']"
proof -
  have "fst (snd (tr_buildURL t)) ''format'' = None"
    by (simp add: tr_buildURL_def Let_def Values_Set_def split: option.splits)
  moreover have "dom (fst (snd (tr_buildURL t)))
      \<subseteq> {''pretty'', ''human'', ''error_trace'', ''filter_path''}"
    by (auto simp: tr_buildURL_def Let_def Values_Set_def split: option.splits if_splits)
  moreover have "fst (snd (tr_buildURL t)) ''pretty'' = map_option (\<lambda>v. [Sprint v]) (tr_pretty t)"
    by (simp add: tr_buildURL_def Let_def Values_Set_def split: option.splits)
  moreover have "fst (snd (tr_buildURL t)) ''human'' = map_option (\<lambda>v. [Sprint v]) (tr_human t)"
    by (simp add: tr_buildURL_def Let_def Values_Set_def split: option.splits)
  moreover have "fst (snd (tr_buildURL t)) ''error_trace''
      = map_option (\<lambda>v. [Sprint v]) (tr_errorTrace t)"
    by (simp add: tr_buildURL_def Let_def Values_Set_def split: option.splits)
  moreover have "fst (snd (tr_buildURL t)) ''filter_path'' =
     (if tr_filterPath t = [] then None else Some [Join (tr_filterPath t) '',''])"
    by (simp add: tr_buildURL_def Let_def Values_Set_def split: option.splits)
  moreover have "fst (snd (buildURL s)) ''format'' = Some [''json'']"
    by (simp add: buildURL_def Let_def Values_Set_def)
  ultimately show ?thesis by blast
qed

theorem tr_buildURL_params_witness:
  "fst (snd (tr_buildURL (tr_FilterPath [''rows'', ''columns'']
      (tr_Pretty True (NewXPackSqlTranslateService :: unit XPackSqlTranslateService)))))
     ''format'' = None \<and>
   fst (snd (tr_buildURL (tr_FilterPath [''rows'', ''columns'']
      (tr_Pretty True (NewXPackSqlTranslateService :: unit XPackSqlTranslateService)))))
     ''pretty'' = Some [''true''] \<and>
   fst (snd (tr_buildURL (tr_FilterPath [''rows'', ''columns'']
      (tr_Pretty True (NewXPackSqlTranslateService :: unit XPackSqlTranslateService)))))
     ''filter_path'' = Some [''rows,columns''] \<and>
   fst (snd (tr_buildURL (tr_FilterPath [''rows'', ''columns'']
      (tr_Pretty True (NewXPackSqlTranslateService :: unit XPackSqlTranslateService)))))
     ''human'' = None"
  using tr_buildURL_params [of "tr_FilterPath [''rows'', ''columns'']
      (tr_Pretty True (NewXPackSqlTranslateService :: unit XPackSqlTranslateService))"
      "NewXPackSqlQueryService :: unit XPackSqlQueryService"]
  by (simp add: tr_FilterPath_def tr_Pretty_def NewXPackSqlTranslateService_def Sprint_def)

section \<open>Execution\<close>

text \<open>
  C8: for both builders, whenever the request Do hands to the HTTP executor comes back
  with an error, Do returns exactly that error and no response value (a nil pointer
  for the query builder, the empty string for the translate builder). The world Do
  returns is the one that single call left behind: there is no second attempt.
\<close>

theorem Do_transport_error:
  "(Source s w = (Inr b, w1) \<longrightarrow>
      PerformRequest ctx \<lparr>Method = ''POST'', Path = ''/_sql'',
         Params = fst (snd (buildURL s)), Body = b, Headers = headers s\<rparr> w1
        = (Inl err, w2) \<longrightarrow>
      Do PerformRequest Unmarshal ctx s w = ((None, Some err), w2)) \<and>
   (tr_Source t v = (Inr c, v1) \<longrightarrow>
      PerformRequest' ctx' \<lparr>Method = ''POST'', Path = ''/_sql/translate'',
         Params = fst (snd (tr_buildURL t)), Body = c, Headers = tr_headers t\<rparr> v1
        = (Inl err', v2) \<longrightarrow>
      tr_Do PerformRequest' ctx' t v = (([], Some err'), v2))"
  by (simp add: Do_def tr_Do_def Validate_def tr_Validate_def buildURL_def tr_buildURL_def
      Let_def)

theorem Do_transport_error_witness:
  "Source (SQL ''SELECT 1'' NewXPackSqlQueryService) ([] :: string list)
     = (Inr [''query'' \<mapsto> JString ''SELECT 1''], []) \<and>
   Do (recording_executor (Inl (foreignError 3))) (\<lambda>b. Inr \<lparr>Columns = [], Rows = [], Cursor_of = []\<rparr>)
      () (SQL ''SELECT 1'' NewXPackSqlQueryService) []
     = ((None, Some (foreignError 3)), [''POST /_sql'']) \<and>
   tr_Source (tr_SQL ''SELECT 1'' NewXPackSqlTranslateService) ([] :: string list)
     = (Inr [''query'' \<mapsto> JString ''SELECT 1''], []) \<and>
   tr_Do (recording_executor (Inl (foreignError 4))) ()
      (tr_SQL ''SELECT 1'' NewXPackSqlTranslateService) []
     = (([], Some (foreignError 4)), [''POST /_sql/translate''])"
proof -
  let ?s = "SQL ''SELECT 1'' NewXPackSqlQueryService :: string list XPackSqlQueryService"
  let ?t = "tr_SQL ''SELECT 1'' NewXPackSqlTranslateService
              :: string list XPackSqlTranslateService"
  let ?b = "[''query'' \<mapsto> JString ''SELECT 1'']"
  have s1: "Source ?s [] = (Inr ?b, [])"
    by (simp add: Source_def SQL_def NewXPackSqlQueryService_def)
  have s2: "recording_executor (Inl (foreignError 3)) ()
              \<lparr>Method = ''POST'', Path = ''/_sql'', Params = fst (snd (buildURL ?s)),
               Body = ?b, Headers = headers ?s\<rparr> []
            = (Inl (foreignError 3), [''POST /_sql''])"
    by (simp add: recording_executor_def)
  have t1: "tr_Source ?t [] = (Inr ?b, [])"
    by (simp add: tr_Source_def tr_SQL_def NewXPackSqlTranslateService_def)
  have t2: "recording_executor (Inl (foreignError 4)) ()
              \<lparr>Method = ''POST'', Path = ''/_sql/translate'',
               Params = fst (snd (tr_buildURL ?t)), Body = ?b, Headers = tr_headers ?t\<rparr> []
            = (Inl (foreignError 4), [''POST /_sql/translate''])"
    by (simp add: recording_executor_def)
  from Do_transport_error
    [of ?s "[]" ?b "[]" "recording_executor (Inl (foreignError 3))" "()" "foreignError 3"
        "[''POST /_sql'']" "\<lambda>b. Inr \<lparr>Columns = [], Rows = [], Cursor_of = []\<rparr>"
        ?t "[]" ?b "[]" "recording_executor (Inl (foreignError 4))" "()" "foreignError 4"
        "[''POST /_sql/translate'']"]
    s1 s2 t1 t2
  show ?thesis by blast
qed

end
